theory Spec2Isabelle
  imports Complex_Main
begin

section \<open>JavaScript values and thrown values\<close>

text \<open>
  The bridge is a JavaScript module. The tool arguments arrive as parsed JSON, so a value is
  one of the JSON kinds; numbers are modelled as rationals (JSON cannot carry NaN or an
  infinity), and arrays and objects as one opaque constructor, since the code only tests
  them for truthiness and with \<^verbatim>\<open>typeof\<close>.
\<close>

datatype jsval = JUndefined | JNull | JBool bool | JNum rat | JStr string | JObject

text \<open>JavaScript's ToBoolean.\<close>

fun truthy :: "jsval \<Rightarrow> bool" where
  "truthy JUndefined = False"
| "truthy JNull = False"
| "truthy (JBool b) = b"
| "truthy (JNum r) = (r \<noteq> 0)"
| "truthy (JStr s) = (s \<noteq> [])"
| "truthy JObject = True"

text \<open>\<^verbatim>\<open>typeof v === "string"\<close>\<close>

fun is_string :: "jsval \<Rightarrow> bool" where
  "is_string (JStr s) = True"
| "is_string _ = False"

text \<open>
  \<^verbatim>\<open>LIST.includes(v)\<close> for an array of strings: only a string value can be equal to an
  element.
\<close>

fun array_includes :: "string list \<Rightarrow> jsval \<Rightarrow> bool" where
  "array_includes xs (JStr s) = (s \<in> set xs)"
| "array_includes xs _ = False"

text \<open>
  A value of type \<^verbatim>\<open>string | undefined\<close> (a destructured option, an optional field) is a
  \<open>string option\<close>; it is truthy when it is a non-empty string.
\<close>

fun truthy_str :: "string option \<Rightarrow> bool" where
  "truthy_str None = False"
| "truthy_str (Some s) = (s \<noteq> [])"

text \<open>\<^verbatim>\<open>v || d\<close> for such a value.\<close>

fun or_default :: "string option \<Rightarrow> string \<Rightarrow> string" where
  "or_default None d = d"
| "or_default (Some s) d = (if s \<noteq> [] then s else d)"

text \<open>
  What a \<^verbatim>\<open>throw\<close> carries: an \<^verbatim>\<open>Error\<close> object with its message, or any other value, kept
  as the text \<^verbatim>\<open>String(value)\<close> gives.
\<close>

datatype thrown = JsError string | JsValue string

text \<open>\<^verbatim>\<open>error instanceof Error ? error.message : String(error)\<close>\<close>

fun error_msg :: "thrown \<Rightarrow> string" where
  "error_msg (JsError m) = m"
| "error_msg (JsValue s) = s"

section \<open>Configuration\<close>

text \<open>
  The environment variables the module reads when it is loaded. \<open>COPILOT_TIMEOUT\<close> holds
  the value of \<^verbatim>\<open>Number(process.env.COPILOT_TIMEOUT)\<close>, with \<open>None\<close> for NaN.
\<close>

record process_env =
  COPILOT_MODEL :: "string option"
  COPILOT_REASONING_EFFORT :: "string option"
  COPILOT_TIMEOUT :: "rat option"
  COPILOT_WRITE_ACCESS :: "string option"
  GEMINI_MODEL :: "string option"

definition DEFAULT_MODEL :: "process_env \<Rightarrow> string" where
  "DEFAULT_MODEL env = or_default (COPILOT_MODEL env) ''gpt-5.2''"

definition VALID_REASONING_EFFORTS :: "string list" where
  "VALID_REASONING_EFFORTS = [''low'', ''medium'', ''high'', ''xhigh'']"

fun parseReasoningEffort :: "jsval \<Rightarrow> string" where
  "parseReasoningEffort (JStr s) =
     (if truthy (JStr s) \<and> array_includes VALID_REASONING_EFFORTS (JStr s) then s else ''high'')"
| "parseReasoningEffort _ = ''high''"

text \<open>An environment variable is a string or undefined.\<close>

fun env_value :: "string option \<Rightarrow> jsval" where
  "env_value None = JUndefined"
| "env_value (Some s) = JStr s"

definition DEFAULT_REASONING_EFFORT :: "process_env \<Rightarrow> string" where
  "DEFAULT_REASONING_EFFORT env = parseReasoningEffort (env_value (COPILOT_REASONING_EFFORT env))"

definition DEFAULT_TIMEOUT :: "process_env \<Rightarrow> rat" where
  "DEFAULT_TIMEOUT env =
     (case COPILOT_TIMEOUT env of
        None \<Rightarrow> 300000
      | Some r \<Rightarrow> if r \<noteq> 0 then r else 300000)"

definition DEFAULT_GEMINI_MODEL :: "process_env \<Rightarrow> string" where
  "DEFAULT_GEMINI_MODEL env = or_default (GEMINI_MODEL env) ''auto-gemini-3''"

definition VALID_GEMINI_MODELS :: "string list" where
  "VALID_GEMINI_MODELS =
     [''auto-gemini-3'', ''auto-gemini-2.5'', ''gemini-3-pro-preview'',
      ''gemini-3-flash-preview'', ''gemini-2.5-pro'', ''gemini-2.5-flash'',
      ''gemini-2.5-flash-lite'']"

definition DEFAULT_WRITE_ACCESS :: "process_env \<Rightarrow> bool" where
  "DEFAULT_WRITE_ACCESS env = (COPILOT_WRITE_ACCESS env \<noteq> Some ''false'')"

definition WRITE_TOOLS :: "string list" where
  "WRITE_TOOLS = [''bash'', ''write_bash'', ''create'', ''edit'', ''task'']"

definition READ_ONLY_ALLOWED_KINDS :: "string set" where
  "READ_ONLY_ALLOWED_KINDS = {''mcp'', ''read'', ''url''}"

section \<open>The permission callback\<close>

text \<open>
  The result of a permission request: \<^verbatim>\<open>{ kind: "approved" }\<close>, or
  \<^verbatim>\<open>{ kind: "denied-by-rules", rules: [{ description: ... }] }\<close> with the descriptions of
  its rules.
\<close>

datatype permission_result = Approved | DeniedByRules "string list"

text \<open>
  \<open>onPermissionRequest\<close> is a closure over the \<open>writeAccess\<close> of the bridge run; its
  argument is \<^verbatim>\<open>request.kind\<close>, a string.
\<close>

definition onPermissionRequest :: "bool \<Rightarrow> string \<Rightarrow> permission_result" where
  "onPermissionRequest writeAccess kind =
     (if kind \<in> READ_ONLY_ALLOWED_KINDS then Approved
      else if writeAccess then Approved
      else DeniedByRules [''Write access is disabled - only read operations permitted''])"

section \<open>The Copilot SDK, as the bridge sees it\<close>

text \<open>
  The options of \<open>runBridge\<close>; an absent or undefined property is \<open>None\<close>, and takes the
  default of the destructuring pattern.
\<close>

record bridge_options =
  o_prompt :: string
  o_model :: "string option"
  o_reasoningEffort :: "string option"
  o_geminiModel :: "string option"
  o_context :: "string option"
  o_timeout :: "rat option"
  o_writeAccess :: "bool option"

text \<open>
  The configuration handed to \<^verbatim>\<open>client.createSession\<close>. \<open>cfg_geminiModel\<close> is the
  argument of \<^verbatim>\<open>buildSystemMessage\<close>; the \<^verbatim>\<open>mcpServers\<close> entry and the
  \<^verbatim>\<open>onUserInputRequest\<close> callback are the same for every request and are left out.
\<close>

record session_config =
  cfg_model :: string
  cfg_reasoningEffort :: string
  cfg_excludedTools :: "string list option"
  cfg_geminiModel :: string
  cfg_onPermissionRequest :: "string \<Rightarrow> permission_result"

text \<open>The data of a \<^verbatim>\<open>tool.execution_start\<close> event.\<close>

record tool_event =
  toolName :: string
  mcpServerName :: "string option"

text \<open>
  What \<^verbatim>\<open>sendAndWait\<close> resolves to: undefined, or an event whose \<^verbatim>\<open>data.content\<close> is a
  string or undefined.
\<close>

datatype response = NoResponse | Response "string option"

text \<open>\<^verbatim>\<open>response?.data?.content\<close>\<close>

fun response_content :: "response \<Rightarrow> string option" where
  "response_content NoResponse = None"
| "response_content (Response c) = c"

text \<open>An entry of the session's message history: its \<^verbatim>\<open>type\<close> and its \<^verbatim>\<open>data.content\<close>.\<close>

record session_event =
  ev_type :: string
  ev_content :: "string option"

text \<open>
  A session object: what each of its asynchronous methods settles to. \<open>sendAndWait\<close>
  gets the prompt and the timeout, and yields the \<^verbatim>\<open>tool.execution_start\<close> events fired
  while the bridge waits, in order, with the outcome of the call (a timeout is a rejection).
\<close>

record session =
  sessionId :: string
  sendAndWait :: "string \<Rightarrow> rat \<Rightarrow> tool_event list \<times> (thrown + response)"
  getMessages :: "thrown + session_event list"
  destroy :: "thrown + unit"

record client =
  createSession :: "session_config \<Rightarrow> thrown + session"

text \<open>The calls the bridge makes, in order.\<close>

datatype action =
    GetClient
  | CreateSession session_config
  | SendAndWait string rat
  | GetMessages
  | Destroy string

fun is_Destroy :: "action \<Rightarrow> bool" where
  "is_Destroy (Destroy s) = True"
| "is_Destroy _ = False"

section \<open>runBridge\<close>

definition opt_model :: "process_env \<Rightarrow> bridge_options \<Rightarrow> string" where
  "opt_model env options =
     (case o_model options of None \<Rightarrow> DEFAULT_MODEL env | Some m \<Rightarrow> m)"

definition opt_reasoningEffort :: "process_env \<Rightarrow> bridge_options \<Rightarrow> string" where
  "opt_reasoningEffort env options =
     (case o_reasoningEffort options of None \<Rightarrow> DEFAULT_REASONING_EFFORT env | Some e \<Rightarrow> e)"

definition opt_geminiModel :: "process_env \<Rightarrow> bridge_options \<Rightarrow> string" where
  "opt_geminiModel env options =
     (case o_geminiModel options of None \<Rightarrow> DEFAULT_GEMINI_MODEL env | Some m \<Rightarrow> m)"

definition opt_timeout :: "process_env \<Rightarrow> bridge_options \<Rightarrow> rat" where
  "opt_timeout env options =
     (case o_timeout options of None \<Rightarrow> DEFAULT_TIMEOUT env | Some t \<Rightarrow> t)"

definition opt_writeAccess :: "process_env \<Rightarrow> bridge_options \<Rightarrow> bool" where
  "opt_writeAccess env options =
     (case o_writeAccess options of None \<Rightarrow> DEFAULT_WRITE_ACCESS env | Some w \<Rightarrow> w)"

definition fullPrompt :: "bridge_options \<Rightarrow> string" where
  "fullPrompt options =
     (case o_context options of
        None \<Rightarrow> o_prompt options
      | Some c \<Rightarrow>
          if c \<noteq> [] then
            o_prompt options @ [CHR 0x0A, CHR 0x0A] @ ''--- Additional Context ---''
              @ [CHR 0x0A] @ c
          else o_prompt options)"

definition sessionConfig :: "process_env \<Rightarrow> bridge_options \<Rightarrow> session_config" where
  "sessionConfig env options =
     \<lparr> cfg_model = opt_model env options,
       cfg_reasoningEffort = opt_reasoningEffort env options,
       cfg_excludedTools = (if opt_writeAccess env options then None else Some WRITE_TOOLS),
       cfg_geminiModel = opt_geminiModel env options,
       cfg_onPermissionRequest = onPermissionRequest (opt_writeAccess env options) \<rparr>"

text \<open>The listener of \<^verbatim>\<open>tool.execution_start\<close> pushes this label.\<close>

definition label :: "tool_event \<Rightarrow> string" where
  "label event =
     (case mcpServerName event of
        None \<Rightarrow> toolName event
      | Some mcpServer \<Rightarrow>
          if mcpServer \<noteq> [] then mcpServer @ '':'' @ toolName event else toolName event)"

text \<open>\<^verbatim>\<open>Array.prototype.join\<close>\<close>

fun join :: "string \<Rightarrow> string list \<Rightarrow> string" where
  "join sep [] = []"
| "join sep [x] = x"
| "join sep (x # y # ys) = x @ sep @ join sep (y # ys)"

definition toolsUsed :: "string list \<Rightarrow> string" where
  "toolsUsed events =
     (if length events > 0
      then [CHR 0x0A, CHR 0x0A] @ ''[Tools used: '' @ join '', '' events @ '']''
      else [])"

definition assistantMessages :: "session_event list \<Rightarrow> session_event list" where
  "assistantMessages messages = filter (\<lambda>m. ev_type m = ''assistant.message'') messages"

text \<open>\<^verbatim>\<open>assistantMessages[assistantMessages.length - 1]\<close>, undefined on the empty array.\<close>

definition lastMsg :: "session_event list \<Rightarrow> session_event option" where
  "lastMsg messages =
     (if assistantMessages messages = [] then None
      else Some (last (assistantMessages messages)))"

text \<open>The value returned once the message history has been read.\<close>

definition historyResult :: "session_event list \<Rightarrow> string" where
  "historyResult messages =
     (case lastMsg messages of
        None \<Rightarrow> ''No response generated.''
      | Some m \<Rightarrow>
          if ev_type m = ''assistant.message''
          then or_default (ev_content m) ''No response generated.''
          else ''No response generated.'')"

text \<open>
  The body of the \<^verbatim>\<open>try\<close> block: its completion (a thrown value or the returned text),
  the value of the variable \<open>session\<close> when the block is left, and the calls made.
  \<open>history\<close> is the branch taken when the content is falsy (undefined or empty); only
  that branch calls \<open>getMessages\<close>.
\<close>

definition try_block ::
  "process_env \<Rightarrow> client \<Rightarrow> bridge_options \<Rightarrow> (thrown + string) \<times> session option \<times> action list"
where
  "try_block env cl options =
     (let cfg = sessionConfig env options in
      case createSession cl cfg of
        Inl e \<Rightarrow> (Inl e, None, [CreateSession cfg])
      | Inr s \<Rightarrow>
          (let sent = sendAndWait s (fullPrompt options) (opt_timeout env options);
               events = map label (fst sent);
               tr = [CreateSession cfg, SendAndWait (fullPrompt options) (opt_timeout env options)];
               history =
                 (case getMessages s of
                    Inl e \<Rightarrow> (Inl e, Some s, tr @ [GetMessages])
                  | Inr messages \<Rightarrow> (Inr (historyResult messages), Some s, tr @ [GetMessages]))
           in case snd sent of
                Inl e \<Rightarrow> (Inl e, Some s, tr)
              | Inr resp \<Rightarrow>
                  (case response_content resp of
                     None \<Rightarrow> history
                   | Some content \<Rightarrow>
                       if content = [] then history
                       else (Inr (content @ toolsUsed events), Some s, tr))))"

text \<open>The \<^verbatim>\<open>catch\<close> clause rethrows every thrown value as a new \<^verbatim>\<open>Error\<close>.\<close>

fun catch_block :: "thrown + string \<Rightarrow> thrown + string" where
  "catch_block (Inl e) = Inl (JsError (''Copilot-Gemini bridge failed: '' @ error_msg e))"
| "catch_block (Inr r) = Inr r"

text \<open>
  The \<^verbatim>\<open>finally\<close> clause: the value it throws, if any (which would replace the completion
  of the \<^verbatim>\<open>try\<close> statement), and the calls made.
\<close>

definition finally_block :: "session option \<Rightarrow> thrown option \<times> action list" where
  "finally_block sess =
     (case sess of
        None \<Rightarrow> (None, [])
      | Some s \<Rightarrow>
          (case destroy s of
             Inl e \<Rightarrow> (None, [Destroy (sessionId s)])
           | Inr u \<Rightarrow> (None, [Destroy (sessionId s)])))"

text \<open>
  \<open>runBridge\<close>, given what \<^verbatim>\<open>await getClient()\<close> settles to. The call of \<open>getClient\<close> is
  outside the \<^verbatim>\<open>try\<close> statement, so its rejection leaves \<open>runBridge\<close> as it is.
\<close>

definition runBridge ::
  "process_env \<Rightarrow> thrown + client \<Rightarrow> bridge_options \<Rightarrow> (thrown + string) \<times> action list"
where
  "runBridge env got options =
     (case got of
        Inl e \<Rightarrow> (Inl e, [GetClient])
      | Inr cl \<Rightarrow>
          (let t = try_block env cl options;
               f = finally_block (fst (snd t))
           in (case fst f of
                 Some e \<Rightarrow> Inl e
               | None \<Rightarrow> catch_block (fst t),
               GetClient # snd (snd t) @ snd f)))"

section \<open>The tool-call handler\<close>

record tool_args =
  a_prompt :: jsval
  a_model :: jsval
  a_reasoningEffort :: jsval
  a_geminiModel :: jsval
  a_context :: jsval
  a_timeout :: jsval
  a_writeAccess :: jsval

record tool_request =
  req_name :: string
  req_arguments :: "tool_args option"

record tool_result =
  res_text :: string
  isError :: bool

text \<open>\<^verbatim>\<open>(args || {})\<close>, destructured: every property of the empty object is undefined.\<close>

definition args_or_empty :: "tool_args option \<Rightarrow> tool_args" where
  "args_or_empty args =
     (case args of
        Some a \<Rightarrow> a
      | None \<Rightarrow>
          \<lparr> a_prompt = JUndefined, a_model = JUndefined, a_reasoningEffort = JUndefined,
            a_geminiModel = JUndefined, a_context = JUndefined, a_timeout = JUndefined,
            a_writeAccess = JUndefined \<rparr>)"

fun string_or_undefined :: "jsval \<Rightarrow> string option" where
  "string_or_undefined (JStr s) = Some s"
| "string_or_undefined _ = None"

fun boolean_or_undefined :: "jsval \<Rightarrow> bool option" where
  "boolean_or_undefined (JBool b) = Some b"
| "boolean_or_undefined _ = None"

definition validatedGeminiModel :: "jsval \<Rightarrow> string option" where
  "validatedGeminiModel geminiModel =
     (if truthy geminiModel \<and> array_includes VALID_GEMINI_MODELS geminiModel
      then string_or_undefined geminiModel else None)"

fun validatedTimeout :: "jsval \<Rightarrow> rat option" where
  "validatedTimeout (JNum t) = (if t > 0 then Some t else None)"
| "validatedTimeout _ = None"

text \<open>The options object the handler passes to \<open>runBridge\<close>.\<close>

definition bridgeOptions :: "tool_args \<Rightarrow> bridge_options" where
  "bridgeOptions a =
     \<lparr> o_prompt = (case a_prompt a of JStr s \<Rightarrow> s | _ \<Rightarrow> []),
       o_model = string_or_undefined (a_model a),
       o_reasoningEffort = Some (parseReasoningEffort (a_reasoningEffort a)),
       o_geminiModel = validatedGeminiModel (a_geminiModel a),
       o_context = string_or_undefined (a_context a),
       o_timeout = validatedTimeout (a_timeout a),
       o_writeAccess = boolean_or_undefined (a_writeAccess a) \<rparr>"

definition handler ::
  "process_env \<Rightarrow> thrown + client \<Rightarrow> tool_request \<Rightarrow> tool_result \<times> action list"
where
  "handler env got request =
     (if req_name request \<noteq> ''ask-copilot-with-gemini'' then
        (\<lparr> res_text = ''Unknown tool: '' @ req_name request, isError = True \<rparr>, [])
      else
        (let a = args_or_empty (req_arguments request) in
         if \<not> truthy (a_prompt a) \<or> \<not> is_string (a_prompt a) then
           (\<lparr> res_text = ''Error: prompt is required and must be a string'', isError = True \<rparr>, [])
         else
           (case runBridge env got (bridgeOptions a) of
              (Inr result, tr) \<Rightarrow> (\<lparr> res_text = result, isError = False \<rparr>, tr)
            | (Inl error, tr) \<Rightarrow>
                (\<lparr> res_text = ''Error: '' @ error_msg error, isError = True \<rparr>, tr))))"


section \<open>The singleton client\<close>

text \<open>
  \<open>getClient\<close> is an asynchronous function over two module variables. JavaScript runs one
  piece of code at a time and switches only at an \<^verbatim>\<open>await\<close>, so the function is modelled
  by the pieces between its suspension points, each a function on the module state.

  A \<^verbatim>\<open>CopilotClient\<close> instance is a number, its identity. \<open>started\<close> logs the instances
  on which \<^verbatim>\<open>start()\<close> was invoked, in order. \<open>promises\<close> holds the promises returned by
  the initialising closure: \<open>Pending c\<close> while the closure is suspended at
  \<^verbatim>\<open>await client.start()\<close> for the instance \<open>c\<close>, then fulfilled with the instance or
  rejected with what \<^verbatim>\<open>start()\<close> threw. \<open>clientInitPromise\<close> refers to one of them by
  its index.
\<close>

datatype promise = Pending nat | Fulfilled nat | Rejected thrown

record runtime =
  singletonClient :: "nat option"
  clientInitPromise :: "nat option"
  promises :: "promise list"
  started :: "nat list"

definition uninitialized :: runtime where
  "uninitialized =
     \<lparr> singletonClient = None, clientInitPromise = None, promises = [], started = [] \<rparr>"

text \<open>
  Where a call of \<open>getClient\<close> stands after its synchronous part: it has returned the
  singleton; it has returned \<open>clientInitPromise\<close>, so that its own promise follows that
  one; or it is suspended at \<^verbatim>\<open>await clientInitPromise\<close> inside the \<^verbatim>\<open>try\<close> block.
\<close>

datatype waiting = Returned nat | Adopted nat | Awaiting nat

text \<open>
  The synchronous part of a call. The third branch creates the client, runs the closure up
  to \<^verbatim>\<open>await client.start()\<close>, which invokes \<^verbatim>\<open>start()\<close>, and stores the closure's
  promise.
\<close>

definition getClient_call :: "runtime \<Rightarrow> runtime \<times> waiting" where
  "getClient_call rt =
     (case singletonClient rt of
        Some c \<Rightarrow> (rt, Returned c)
      | None \<Rightarrow>
          (case clientInitPromise rt of
             Some p \<Rightarrow> (rt, Adopted p)
           | None \<Rightarrow>
               (let client = length (started rt);
                    p = length (promises rt)
                in (rt \<lparr> clientInitPromise := Some p,
                         promises := promises rt @ [Pending client],
                         started := started rt @ [client] \<rparr>,
                    Awaiting p))))"

text \<open>
  \<^verbatim>\<open>start()\<close> of the closure behind promise \<open>p\<close> settles, and the closure runs to its end:
  on success it assigns \<open>singletonClient\<close> and fulfils its promise, on failure its promise
  is rejected.
\<close>

definition start_settles :: "nat \<Rightarrow> thrown + unit \<Rightarrow> runtime \<Rightarrow> runtime" where
  "start_settles p outcome rt =
     (if p < length (promises rt) then
        (case promises rt ! p of
           Pending client \<Rightarrow>
             (case outcome of
                Inr u \<Rightarrow> rt \<lparr> singletonClient := Some client,
                                promises := (promises rt)[p := Fulfilled client] \<rparr>
              | Inl e \<Rightarrow> rt \<lparr> promises := (promises rt)[p := Rejected e] \<rparr>)
         | Fulfilled c \<Rightarrow> rt
         | Rejected e \<Rightarrow> rt)
      else rt)"

text \<open>What promise \<open>p\<close> has settled to, if it has.\<close>

definition settled :: "runtime \<Rightarrow> nat \<Rightarrow> (thrown + nat) option" where
  "settled rt p =
     (if p < length (promises rt) then
        (case promises rt ! p of
           Pending c \<Rightarrow> None
         | Fulfilled c \<Rightarrow> Some (Inr c)
         | Rejected e \<Rightarrow> Some (Inl e))
      else None)"

text \<open>
  The rest of a call, once the promise it waits for has settled (\<open>None\<close> before that): what
  the caller of \<open>getClient\<close> observes, a client or a thrown value. Only the call suspended
  inside the \<^verbatim>\<open>try\<close> block has a \<^verbatim>\<open>catch\<close> clause, which clears \<open>clientInitPromise\<close> and
  rethrows.
\<close>

definition getClient_resume :: "waiting \<Rightarrow> runtime \<Rightarrow> (runtime \<times> (thrown + nat)) option" where
  "getClient_resume w rt =
     (case w of
        Returned c \<Rightarrow> Some (rt, Inr c)
      | Adopted p \<Rightarrow>
          (case settled rt p of
             None \<Rightarrow> None
           | Some r \<Rightarrow> Some (rt, r))
      | Awaiting p \<Rightarrow>
          (case settled rt p of
             None \<Rightarrow> None
           | Some (Inr c) \<Rightarrow> Some (rt, Inr c)
           | Some (Inl error) \<Rightarrow> Some (rt \<lparr> clientInitPromise := None \<rparr>, Inl error)))"

text \<open>\<open>n\<close> callers invoke \<open>getClient\<close> one after the other, before anything settles.\<close>

fun calls :: "nat \<Rightarrow> runtime \<Rightarrow> runtime \<times> waiting list" where
  "calls 0 rt = (rt, [])"
| "calls (Suc n) rt =
     (let c = getClient_call rt; r = calls n (fst c) in (fst r, snd c # snd r))"

text \<open>The callers are resumed in turn; each yields what it observes, \<open>None\<close> if still waiting.\<close>

fun resume_all :: "waiting list \<Rightarrow> runtime \<Rightarrow> runtime \<times> (thrown + nat) option list" where
  "resume_all [] rt = (rt, [])"
| "resume_all (w # ws) rt =
     (case getClient_resume w rt of
        None \<Rightarrow> (let r = resume_all ws rt in (fst r, None # snd r))
      | Some (rt1, x) \<Rightarrow> (let r = resume_all ws rt1 in (fst r, Some x # snd r)))"

section \<open>Scenarios\<close>

text \<open>Concrete environments, requests and sessions, on which the theorems are exercised.\<close>

definition env_unset :: process_env where
  "env_unset =
     \<lparr> COPILOT_MODEL = None, COPILOT_REASONING_EFFORT = None, COPILOT_TIMEOUT = None,
       COPILOT_WRITE_ACCESS = None, GEMINI_MODEL = None \<rparr>"

definition env_effort_low :: process_env where
  "env_effort_low = env_unset \<lparr> COPILOT_REASONING_EFFORT := Some ''low'' \<rparr>"

definition scenario_options :: "bool option \<Rightarrow> bridge_options" where
  "scenario_options w =
     \<lparr> o_prompt = ''summarize X'', o_model = None, o_reasoningEffort = None,
       o_geminiModel = None, o_context = None, o_timeout = None, o_writeAccess = w \<rparr>"

text \<open>
  A session that fires the given tool events while the prompt is processed, settles
  \<open>sendAndWait\<close> and \<open>destroy\<close> as given, and has the given message history.
\<close>

definition scripted_session ::
  "tool_event list \<Rightarrow> thrown + response \<Rightarrow> session_event list \<Rightarrow> thrown + unit \<Rightarrow> session"
where
  "scripted_session fired outcome messages destroyed =
     \<lparr> sessionId = ''session-1'',
       sendAndWait = (\<lambda>p t. (fired, outcome)),
       getMessages = Inr messages,
       destroy = destroyed \<rparr>"

definition scripted_client :: "session \<Rightarrow> client" where
  "scripted_client s = \<lparr> createSession = (\<lambda>cfg. Inr s) \<rparr>"

definition tool :: "string \<Rightarrow> tool_event" where
  "tool n = \<lparr> toolName = n, mcpServerName = None \<rparr>"

definition assistant_message :: "string \<Rightarrow> session_event" where
  "assistant_message c = \<lparr> ev_type = ''assistant.message'', ev_content = Some c \<rparr>"

definition prompt_only :: "string \<Rightarrow> tool_args" where
  "prompt_only p = (args_or_empty None) \<lparr> a_prompt := JStr p \<rparr>"

definition tool_call :: "tool_args option \<Rightarrow> tool_request" where
  "tool_call args = \<lparr> req_name = ''ask-copilot-with-gemini'', req_arguments = args \<rparr>"

definition answering_client :: client where
  "answering_client =
     scripted_client (scripted_session [] (Inr (Response (Some ''ok''))) [] (Inr ()))"

section \<open>The permission policy\<close>

text \<open>
  C1. The permission callback of a session follows the policy table: a request of kind
  mcp, read or url is approved whatever the write-access flag of the request is; a request
  of kind shell or write is approved exactly when the write-access flag of the request is
  true, and is otherwise denied by a rule whose description says that write access is
  disabled. When the request carries no flag, the flag is the configured default, which is
  false only for \<open>COPILOT_WRITE_ACCESS=false\<close>.
\<close>

theorem permission_policy_table:
  "(kind \<in> {''mcp'', ''read'', ''url''} \<longrightarrow>
      cfg_onPermissionRequest (sessionConfig env options) kind = Approved) \<and>
   (kind \<in> {''shell'', ''write''} \<longrightarrow>
      (o_writeAccess options = Some w \<longrightarrow>
         (cfg_onPermissionRequest (sessionConfig env options) kind = Approved) = w \<and>
         (w \<longrightarrow> cfg_onPermissionRequest (sessionConfig env options) kind = Approved) \<and>
         (\<not> w \<longrightarrow>
            cfg_onPermissionRequest (sessionConfig env options) kind =
              DeniedByRules [''Write access is disabled - only read operations permitted''])) \<and>
      (o_writeAccess options = None \<longrightarrow>
         (cfg_onPermissionRequest (sessionConfig env options) kind = Approved)
            = (COPILOT_WRITE_ACCESS env \<noteq> Some ''false'') \<and>
         (COPILOT_WRITE_ACCESS env = Some ''false'' \<longrightarrow>
            cfg_onPermissionRequest (sessionConfig env options) kind =
              DeniedByRules [''Write access is disabled - only read operations permitted''])) \<and>
      (cfg_onPermissionRequest (sessionConfig env options) kind = Approved)
         = opt_writeAccess env options \<and>
      (\<not> opt_writeAccess env options \<longrightarrow>
         cfg_onPermissionRequest (sessionConfig env options) kind =
           DeniedByRules [''Write access is disabled - only read operations permitted'']))"
  by (auto simp: sessionConfig_def onPermissionRequest_def READ_ONLY_ALLOWED_KINDS_def
      opt_writeAccess_def DEFAULT_WRITE_ACCESS_def)

text \<open>
  Scenario A and its opposite: a shell request is denied in a run whose request has the
  write-access flag false, and approved in a run whose request has it true.
\<close>

theorem permission_policy_table_witness:
  "''shell'' \<in> {''shell'', ''write''} \<and>
   o_writeAccess (scenario_options (Some False)) = Some False \<and>
   cfg_onPermissionRequest (sessionConfig env_unset (scenario_options (Some False))) ''shell'' =
     DeniedByRules [''Write access is disabled - only read operations permitted''] \<and>
   o_writeAccess (scenario_options (Some True)) = Some True \<and>
   cfg_onPermissionRequest (sessionConfig env_unset (scenario_options (Some True))) ''shell'' =
     Approved"
  using permission_policy_table [of "''shell''" env_unset "scenario_options (Some False)" False]
    permission_policy_table [of "''shell''" env_unset "scenario_options (Some True)" True]
  by (simp add: scenario_options_def)

text \<open>
  C2, as stated: a request whose kind is none of mcp, read, url, shell, write is denied
  whatever the write access is. It fails: with write access on, the callback approves the
  kind \<open>delete\<close>.
\<close>

theorem unrecognized_kind_counterexample:
  "''delete'' \<notin> {''mcp'', ''read'', ''url'', ''shell'', ''write''} \<and>
   onPermissionRequest True ''delete'' = Approved"
  by (simp add: onPermissionRequest_def)

text \<open>
  C2, amended: a request whose kind is none of mcp, read, url, shell, write is treated as
  shell and write are: denied, with the reason that write access is disabled, when the
  write access of the run is off, and approved when it is on.
\<close>

theorem unrecognized_kind_follows_write_access:
  "kind \<notin> {''mcp'', ''read'', ''url'', ''shell'', ''write''} \<Longrightarrow>
   onPermissionRequest writeAccess kind =
     (if writeAccess then Approved
      else DeniedByRules [''Write access is disabled - only read operations permitted''])"
  by (simp add: onPermissionRequest_def READ_ONLY_ALLOWED_KINDS_def)

theorem unrecognized_kind_follows_write_access_witness:
  "''delete'' \<notin> {''mcp'', ''read'', ''url'', ''shell'', ''write''} \<and>
   onPermissionRequest False ''delete'' =
     DeniedByRules [''Write access is disabled - only read operations permitted'']"
  using unrecognized_kind_follows_write_access [of "''delete''" False]
  by simp

section \<open>Facts about the bridge run\<close>


lemma runBridge_created:
  assumes "createSession cl (sessionConfig env options) = Inr s"
  shows "runBridge env (Inr cl) options =
     (catch_block (fst (try_block env cl options)),
      GetClient # snd (snd (try_block env cl options)) @ [Destroy (sessionId s)])"
  using assms
  by (auto simp: runBridge_def try_block_def finally_block_def Let_def split: sum.splits option.splits)

lemma try_block_no_destroy: "filter is_Destroy (snd (snd (try_block env cl options))) = []"
  by (auto simp: try_block_def Let_def split: sum.splits option.splits)

lemma try_block_sent:
  assumes "createSession cl (sessionConfig env options) = Inr s"
      and "sendAndWait s (fullPrompt options) (opt_timeout env options) = (fired, Inr resp)"
  shows "fst (try_block env cl options) =
     (case response_content resp of
        None \<Rightarrow> map_sum id historyResult (getMessages s)
      | Some content \<Rightarrow>
          if content = [] then map_sum id historyResult (getMessages s)
          else Inr (content @ toolsUsed (map label fired)))"
  using assms
  by (auto simp: try_block_def Let_def split: sum.splits option.splits)

lemma try_block_ignores_destroy:
  assumes "createSession cl (sessionConfig env options) = Inr s"
      and "createSession cl' (sessionConfig env options) = Inr (s\<lparr>destroy := d\<rparr>)"
  shows "fst (try_block env cl' options) = fst (try_block env cl options)"
  using assms
  by (auto simp: try_block_def Let_def split: sum.splits option.splits)

lemma lastMsg_found:
  assumes "ev_type m = ''assistant.message''"
      and "\<forall>x \<in> set after. ev_type x \<noteq> ''assistant.message''"
  shows "lastMsg (before @ m # after) = Some m"
proof -
  have "filter (\<lambda>m. ev_type m = ''assistant.message'') after = []"
    using assms(2) by (simp add: filter_empty_conv)
  then show ?thesis
    using assms(1) by (simp add: lastMsg_def assistantMessages_def)
qed

lemma lastMsg_none:
  assumes "\<forall>x \<in> set messages. ev_type x \<noteq> ''assistant.message''"
  shows "lastMsg messages = None"
  using assms by (simp add: lastMsg_def assistantMessages_def filter_empty_conv)

lemma lastMsg_is_assistant:
  "lastMsg messages = Some m \<Longrightarrow> m \<in> set messages \<and> ev_type m = ''assistant.message''"
proof -
  assume a: "lastMsg messages = Some m"
  then have ne: "assistantMessages messages \<noteq> []" and m: "m = last (assistantMessages messages)"
    by (auto simp: lastMsg_def split: if_splits)
  then have "m \<in> set (assistantMessages messages)" by simp
  then show ?thesis by (simp add: assistantMessages_def)
qed

lemma runBridge_sent:
  assumes "createSession cl (sessionConfig env options) = Inr s"
      and "sendAndWait s (fullPrompt options) (opt_timeout env options) = (fired, Inr resp)"
  shows "fst (runBridge env (Inr cl) options) =
     catch_block
       (case response_content resp of
          None \<Rightarrow> map_sum id historyResult (getMessages s)
        | Some content \<Rightarrow>
            if content = [] then map_sum id historyResult (getMessages s)
            else Inr (content @ toolsUsed (map label fired)))"
  by (simp add: runBridge_created [OF assms(1)] try_block_sent [OF assms])

lemma runBridge_history:
  assumes "createSession cl (sessionConfig env options) = Inr s"
      and "sendAndWait s (fullPrompt options) (opt_timeout env options) = (fired, Inr resp)"
      and "\<not> truthy_str (response_content resp)"
      and "getMessages s = Inr messages"
  shows "fst (runBridge env (Inr cl) options) = Inr (historyResult messages)"
  using assms(3,4)
  by (cases "response_content resp") (simp_all add: runBridge_sent [OF assms(1,2)])

section \<open>Cleanup of the session\<close>

text \<open>
  C4. Once \<open>createSession\<close> has resolved to a session, the run calls \<open>destroy\<close> on
  that session exactly once, as its last call, whatever \<open>sendAndWait\<close> and \<open>getMessages\<close>
  settle to (a returned text, a thrown failure, a timeout, which is a rejection of
  \<open>sendAndWait\<close>). The outcome of the run is the outcome of the \<^verbatim>\<open>try\<close> and \<^verbatim>\<open>catch\<close>
  blocks: it is the same for every way \<open>destroy\<close> can settle, a rejection included.
\<close>

theorem session_destroyed_exactly_once:
  assumes "createSession cl (sessionConfig env options) = Inr s"
  shows "length (filter is_Destroy (snd (runBridge env (Inr cl) options))) = 1 \<and>
         last (snd (runBridge env (Inr cl) options)) = Destroy (sessionId s) \<and>
         fst (runBridge env (Inr cl) options) = catch_block (fst (try_block env cl options)) \<and>
         (\<forall>cl' d. createSession cl' (sessionConfig env options) = Inr (s\<lparr>destroy := d\<rparr>) \<longrightarrow>
            fst (runBridge env (Inr cl') options) = fst (runBridge env (Inr cl) options))"
proof -
  have r: "runBridge env (Inr cl) options =
     (catch_block (fst (try_block env cl options)),
      GetClient # snd (snd (try_block env cl options)) @ [Destroy (sessionId s)])"
    by (rule runBridge_created [OF assms])
  have once: "length (filter is_Destroy (snd (runBridge env (Inr cl) options))) = 1"
    by (simp add: r try_block_no_destroy)
  have final: "last (snd (runBridge env (Inr cl) options)) = Destroy (sessionId s)"
    by (simp add: r)
  have outcome: "fst (runBridge env (Inr cl) options) = catch_block (fst (try_block env cl options))"
    by (simp add: r)
  have masked: "fst (runBridge env (Inr cl') options) = fst (runBridge env (Inr cl) options)"
    if c: "createSession cl' (sessionConfig env options) = Inr (s\<lparr>destroy := d\<rparr>)" for cl' d
  proof -
    have "fst (runBridge env (Inr cl') options) = catch_block (fst (try_block env cl' options))"
      by (simp add: runBridge_created [OF c])
    also have "\<dots> = catch_block (fst (try_block env cl options))"
      by (simp add: try_block_ignores_destroy [OF assms c])
    finally show ?thesis by (simp add: outcome)
  qed
  from once final outcome masked show ?thesis by blast
qed

text \<open>
  Scenario B: \<open>sendAndWait\<close> times out and \<open>destroy\<close> fails; the session is destroyed
  once and the caller sees the timeout.
\<close>

theorem session_destroyed_exactly_once_witness:
  "createSession
     (scripted_client (scripted_session [] (Inl (JsError ''Timeout after 5ms'')) []
        (Inl (JsError ''destroy failed''))))
     (sessionConfig env_unset ((scenario_options None) \<lparr> o_timeout := Some 5 \<rparr>)) =
     Inr (scripted_session [] (Inl (JsError ''Timeout after 5ms'')) []
        (Inl (JsError ''destroy failed''))) \<and>
   length (filter is_Destroy (snd (runBridge env_unset
     (Inr (scripted_client (scripted_session [] (Inl (JsError ''Timeout after 5ms'')) []
        (Inl (JsError ''destroy failed'')))))
     ((scenario_options None) \<lparr> o_timeout := Some 5 \<rparr>)))) = 1 \<and>
   fst (runBridge env_unset
     (Inr (scripted_client (scripted_session [] (Inl (JsError ''Timeout after 5ms'')) []
        (Inl (JsError ''destroy failed'')))))
     ((scenario_options None) \<lparr> o_timeout := Some 5 \<rparr>)) =
     Inl (JsError ''Copilot-Gemini bridge failed: Timeout after 5ms'')"
proof -
  let ?s = "scripted_session [] (Inl (JsError ''Timeout after 5ms'')) []
        (Inl (JsError ''destroy failed''))"
  let ?o = "(scenario_options None) \<lparr> o_timeout := Some 5 \<rparr>"
  have c: "createSession (scripted_client ?s) (sessionConfig env_unset ?o) = Inr ?s"
    by (simp add: scripted_client_def)
  have t: "fst (try_block env_unset (scripted_client ?s) ?o) = Inl (JsError ''Timeout after 5ms'')"
    by (simp add: try_block_def scripted_client_def scripted_session_def Let_def)
  show ?thesis
    using c session_destroyed_exactly_once [OF c] t by simp
qed

section \<open>The text returned by a run\<close>

text \<open>
  C3, as stated: the annotation lists each tool label once. It fails: in scenario D
  (executions of fetch, fetch, search, and a completion with content) the text returned
  ends with the annotation \<open>fetch, fetch, search\<close>, not \<open>fetch, search\<close>.
\<close>

theorem tools_annotation_counterexample:
  "fst (runBridge env_unset
        (Inr (scripted_client (scripted_session [tool ''fetch'', tool ''fetch'', tool ''search'']
           (Inr (Response (Some ''ok''))) [] (Inr ()))))
        (scenario_options None)) =
     Inr (''ok'' @ [CHR 0x0A, CHR 0x0A] @ ''[Tools used: fetch, fetch, search]'') \<and>
   fst (runBridge env_unset
        (Inr (scripted_client (scripted_session [tool ''fetch'', tool ''fetch'', tool ''search'']
           (Inr (Response (Some ''ok''))) [] (Inr ()))))
        (scenario_options None)) \<noteq>
     Inr (''ok'' @ [CHR 0x0A, CHR 0x0A] @ ''[Tools used: fetch, search]'')"
  by (simp add: runBridge_def try_block_def finally_block_def scripted_client_def
      scripted_session_def toolsUsed_def label_def tool_def Let_def)

text \<open>
  C3, amended: when the completion has content and at least one tool execution began
  while the run waited, the text returned is the content followed by an annotation that
  lists the label of every execution, in the order the executions began, one entry for
  each, joined by a comma and a space; a label that occurs twice is listed twice.
\<close>

theorem tools_annotation_lists_every_execution:
  assumes "createSession cl (sessionConfig env options) = Inr s"
      and "sendAndWait s (fullPrompt options) (opt_timeout env options) = (fired, Inr resp)"
      and "response_content resp = Some content" and "content \<noteq> []"
      and "fired \<noteq> []"
  shows "fst (runBridge env (Inr cl) options) =
     Inr (content @ [CHR 0x0A, CHR 0x0A] @ ''[Tools used: '' @ join '', '' (map label fired) @ '']'')"
  using assms(3-5) by (simp add: runBridge_sent [OF assms(1,2)] toolsUsed_def)

theorem tools_annotation_lists_every_execution_witness:
  "sendAndWait (scripted_session [tool ''fetch'', tool ''fetch'', tool ''search'']
           (Inr (Response (Some ''ok''))) [] (Inr ()))
      (fullPrompt (scenario_options None)) (opt_timeout env_unset (scenario_options None)) =
     ([tool ''fetch'', tool ''fetch'', tool ''search''], Inr (Response (Some ''ok''))) \<and>
   fst (runBridge env_unset
        (Inr (scripted_client (scripted_session [tool ''fetch'', tool ''fetch'', tool ''search'']
           (Inr (Response (Some ''ok''))) [] (Inr ()))))
        (scenario_options None)) =
     Inr (''ok'' @ [CHR 0x0A, CHR 0x0A] @ ''[Tools used: fetch, fetch, search]'')"
proof -
  let ?f = "[tool ''fetch'', tool ''fetch'', tool ''search'']"
  let ?s = "scripted_session ?f (Inr (Response (Some ''ok''))) [] (Inr ())"
  have c: "createSession (scripted_client ?s) (sessionConfig env_unset (scenario_options None)) = Inr ?s"
    by (simp add: scripted_client_def)
  have w: "sendAndWait ?s (fullPrompt (scenario_options None))
             (opt_timeout env_unset (scenario_options None)) = (?f, Inr (Response (Some ''ok'')))"
    by (simp add: scripted_session_def)
  have j: "join '', '' (map label ?f) = ''fetch, fetch, search''"
    by (simp add: label_def tool_def)
  show ?thesis
    using w j tools_annotation_lists_every_execution [OF c w, of "''ok''"] by simp
qed

text \<open>
  C7, as stated: when the completion has no content, the most recent assistant message of
  the history is used. It fails when that message has empty content: the run returns the
  placeholder, not the (empty) content of the message.
\<close>

theorem result_extraction_counterexample:
  "lastMsg [assistant_message ''''] = Some (assistant_message '''') \<and>
   fst (runBridge env_unset
        (Inr (scripted_client (scripted_session [] (Inr NoResponse) [assistant_message ''''] (Inr ()))))
        (scenario_options None)) = Inr ''No response generated.'' \<and>
   fst (runBridge env_unset
        (Inr (scripted_client (scripted_session [] (Inr NoResponse) [assistant_message ''''] (Inr ()))))
        (scenario_options None)) \<noteq> Inr ''''"
  by (simp add: runBridge_def try_block_def finally_block_def scripted_client_def
      scripted_session_def historyResult_def lastMsg_def assistantMessages_def
      assistant_message_def Let_def)

text \<open>
  C7, amended. For a run whose session was created and whose \<open>sendAndWait\<close> resolved:
  if the content of the completion is present and non-empty, the text returned is that
  content (followed by the tools annotation, which is empty when no tool ran); if it is
  undefined or empty, and the history was read, the text returned is the content of the
  most recent assistant message when that content is non-empty, and the placeholder
  \<open>No response generated.\<close> when that content is undefined or empty, or when the history
  has no assistant message.
\<close>

theorem result_extraction_chain:
  assumes "createSession cl (sessionConfig env options) = Inr s"
      and "sendAndWait s (fullPrompt options) (opt_timeout env options) = (fired, Inr resp)"
  shows
    "(response_content resp = Some content \<and> content \<noteq> [] \<longrightarrow>
        fst (runBridge env (Inr cl) options) = Inr (content @ toolsUsed (map label fired))) \<and>
     (\<not> truthy_str (response_content resp) \<longrightarrow>
        (getMessages s = Inr (before @ m # after) \<and> ev_type m = ''assistant.message'' \<and>
         (\<forall>x \<in> set after. ev_type x \<noteq> ''assistant.message'') \<longrightarrow>
           (ev_content m = Some c \<and> c \<noteq> [] \<longrightarrow>
              fst (runBridge env (Inr cl) options) = Inr c) \<and>
           (\<not> truthy_str (ev_content m) \<longrightarrow>
              fst (runBridge env (Inr cl) options) = Inr ''No response generated.'')) \<and>
        (getMessages s = Inr messages \<and>
         (\<forall>x \<in> set messages. ev_type x \<noteq> ''assistant.message'') \<longrightarrow>
           fst (runBridge env (Inr cl) options) = Inr ''No response generated.''))"
proof (intro conjI impI)
  assume "response_content resp = Some content \<and> content \<noteq> []"
  then show "fst (runBridge env (Inr cl) options) = Inr (content @ toolsUsed (map label fired))"
    by (simp add: runBridge_sent [OF assms])
next
  assume absent: "\<not> truthy_str (response_content resp)"
    and h: "getMessages s = Inr (before @ m # after) \<and> ev_type m = ''assistant.message'' \<and>
         (\<forall>x \<in> set after. ev_type x \<noteq> ''assistant.message'')"
  from h have l: "lastMsg (before @ m # after) = Some m"
    by (simp add: lastMsg_found)
  from h have r: "fst (runBridge env (Inr cl) options) = Inr (historyResult (before @ m # after))"
    using runBridge_history [OF assms absent] by simp
  {
    assume "ev_content m = Some c \<and> c \<noteq> []"
    with h l r show "fst (runBridge env (Inr cl) options) = Inr c"
      by (simp add: historyResult_def)
  next
    assume "\<not> truthy_str (ev_content m)"
    with h l r show "fst (runBridge env (Inr cl) options) = Inr ''No response generated.''"
      by (cases "ev_content m") (simp_all add: historyResult_def)
  }
next
  assume absent: "\<not> truthy_str (response_content resp)"
    and h: "getMessages s = Inr messages \<and>
         (\<forall>x \<in> set messages. ev_type x \<noteq> ''assistant.message'')"
  then have "lastMsg messages = None"
    by (simp add: lastMsg_none)
  with h show "fst (runBridge env (Inr cl) options) = Inr ''No response generated.''"
    using runBridge_history [OF assms absent, of messages] by (simp add: historyResult_def)
qed

text \<open>Scenario C: no content, and a history with the one assistant message \<open>done\<close>.\<close>

theorem result_extraction_chain_witness:
  "sendAndWait (scripted_session [] (Inr NoResponse) [assistant_message ''done''] (Inr ()))
      (fullPrompt (scenario_options None)) (opt_timeout env_unset (scenario_options None)) =
     ([], Inr NoResponse) \<and>
   \<not> truthy_str (response_content NoResponse) \<and>
   getMessages (scripted_session [] (Inr NoResponse) [assistant_message ''done''] (Inr ())) =
     Inr ([] @ assistant_message ''done'' # []) \<and>
   fst (runBridge env_unset
        (Inr (scripted_client
           (scripted_session [] (Inr NoResponse) [assistant_message ''done''] (Inr ()))))
        (scenario_options None)) = Inr ''done''"
proof -
  let ?s = "scripted_session [] (Inr NoResponse) [assistant_message ''done''] (Inr ())"
  have c: "createSession (scripted_client ?s) (sessionConfig env_unset (scenario_options None)) = Inr ?s"
    by (simp add: scripted_client_def)
  have w: "sendAndWait ?s (fullPrompt (scenario_options None))
             (opt_timeout env_unset (scenario_options None)) = ([], Inr NoResponse)"
    by (simp add: scripted_session_def)
  have g: "getMessages ?s = Inr ([] @ assistant_message ''done'' # [])"
    by (simp add: scripted_session_def)
  have m: "ev_type (assistant_message ''done'') = ''assistant.message''"
          "ev_content (assistant_message ''done'') = Some ''done''"
    by (simp_all add: assistant_message_def)
  show ?thesis
    using w g m
      result_extraction_chain [OF c w, of _ "[]" "assistant_message ''done''" "[]" "''done''"]
    by simp
qed

text \<open>
  C10. When the completion has no content and the history was read, the text returned is
  the placeholder or the content of an assistant message of the history, as it is: the
  tools annotation is not appended, whatever tool executions began during the run.
\<close>

theorem history_result_has_no_annotation:
  assumes "createSession cl (sessionConfig env options) = Inr s"
      and "sendAndWait s (fullPrompt options) (opt_timeout env options) = (fired, Inr resp)"
      and "\<not> truthy_str (response_content resp)"
      and "getMessages s = Inr messages"
  shows "fst (runBridge env (Inr cl) options) = Inr (historyResult messages) \<and>
         (historyResult messages = ''No response generated.'' \<or>
          (\<exists>m \<in> set messages. ev_type m = ''assistant.message'' \<and>
                                 ev_content m = Some (historyResult messages)))"
proof
  show "fst (runBridge env (Inr cl) options) = Inr (historyResult messages)"
    by (rule runBridge_history [OF assms])
next
  show "historyResult messages = ''No response generated.'' \<or>
          (\<exists>m \<in> set messages. ev_type m = ''assistant.message'' \<and>
                                 ev_content m = Some (historyResult messages))"
  proof (cases "lastMsg messages")
    case None
    then show ?thesis by (simp add: historyResult_def)
  next
    case (Some m)
    then have "m \<in> set messages \<and> ev_type m = ''assistant.message''"
      by (rule lastMsg_is_assistant)
    with Some show ?thesis
      by (cases "ev_content m") (auto simp: historyResult_def)
  qed
qed

text \<open>Two tools ran, and the text returned is the bare content of the assistant message.\<close>

theorem history_result_has_no_annotation_witness:
  "sendAndWait (scripted_session [tool ''fetch'', tool ''search''] (Inr NoResponse)
        [assistant_message ''done''] (Inr ()))
      (fullPrompt (scenario_options None)) (opt_timeout env_unset (scenario_options None)) =
     ([tool ''fetch'', tool ''search''], Inr NoResponse) \<and>
   \<not> truthy_str (response_content NoResponse) \<and>
   fst (runBridge env_unset
        (Inr (scripted_client
           (scripted_session [tool ''fetch'', tool ''search''] (Inr NoResponse)
              [assistant_message ''done''] (Inr ()))))
        (scenario_options None)) = Inr ''done''"
proof -
  let ?s = "scripted_session [tool ''fetch'', tool ''search''] (Inr NoResponse)
              [assistant_message ''done''] (Inr ())"
  have c: "createSession (scripted_client ?s) (sessionConfig env_unset (scenario_options None)) = Inr ?s"
    by (simp add: scripted_client_def)
  have w: "sendAndWait ?s (fullPrompt (scenario_options None))
             (opt_timeout env_unset (scenario_options None)) =
           ([tool ''fetch'', tool ''search''], Inr NoResponse)"
    by (simp add: scripted_session_def)
  have a: "\<not> truthy_str (response_content NoResponse)"
    by simp
  have g: "getMessages ?s = Inr [assistant_message ''done'']"
    by (simp add: scripted_session_def)
  have h: "historyResult [assistant_message ''done''] = ''done''"
    by (simp add: historyResult_def lastMsg_def assistantMessages_def assistant_message_def)
  show ?thesis
    using w h history_result_has_no_annotation [OF c w a g] by simp
qed

section \<open>Validation of the tool call\<close>

lemma runBridge_calls_getClient: "hd (snd (runBridge env got options)) = GetClient"
  by (cases got) (simp_all add: runBridge_def Let_def)

text \<open>With a prompt that is a non-empty string, the handler runs the bridge on its options.\<close>

lemma handler_runs_bridge:
  assumes "a_prompt a = JStr p" and "p \<noteq> []"
  shows "snd (handler env got (tool_call (Some a))) = snd (runBridge env got (bridgeOptions a))"
  using assms
  by (cases "runBridge env got (bridgeOptions a)")
     (auto simp: handler_def tool_call_def args_or_empty_def Let_def split: sum.splits)

text \<open>
  C9. A tool call whose prompt is missing, is not a string, or is the empty string gets an
  error result at once, and the bridge run is not invoked: the handler makes no call at
  all (a bridge run begins by asking for the client), so no client is started and no
  session is created. For the tool of this server, the error is the validation message.
\<close>

theorem invalid_prompt_rejected_before_bridge:
  assumes "\<nexists>s. a_prompt (args_or_empty (req_arguments request)) = JStr s \<and> s \<noteq> []"
  shows "isError (fst (handler env got request)) \<and>
         snd (handler env got request) = [] \<and>
         (req_name request = ''ask-copilot-with-gemini'' \<longrightarrow>
            res_text (fst (handler env got request)) =
              ''Error: prompt is required and must be a string'')"
proof -
  have "\<not> truthy (a_prompt (args_or_empty (req_arguments request))) \<or>
        \<not> is_string (a_prompt (args_or_empty (req_arguments request)))"
    using assms by (cases "a_prompt (args_or_empty (req_arguments request))") simp_all
  then show ?thesis
    by (auto simp: handler_def Let_def)
qed

theorem invalid_prompt_rejected_before_bridge_witness:
  "(\<nexists>s. a_prompt (args_or_empty (req_arguments (tool_call (Some (prompt_only ''''))))) = JStr s
         \<and> s \<noteq> []) \<and>
   handler env_unset (Inr answering_client) (tool_call (Some (prompt_only ''''))) =
     (\<lparr> res_text = ''Error: prompt is required and must be a string'', isError = True \<rparr>, [])"
proof -
  have h: "\<nexists>s. a_prompt (args_or_empty (req_arguments (tool_call (Some (prompt_only ''''))))) = JStr s
         \<and> s \<noteq> []"
    by (simp add: tool_call_def prompt_only_def args_or_empty_def)
  have n: "req_name (tool_call (Some (prompt_only ''''))) = ''ask-copilot-with-gemini''"
    by (simp add: tool_call_def)
  show ?thesis
    using h n invalid_prompt_rejected_before_bridge [OF h, of env_unset "Inr answering_client"]
    by (cases "handler env_unset (Inr answering_client) (tool_call (Some (prompt_only '''')))")
       (cases "fst (handler env_unset (Inr answering_client) (tool_call (Some (prompt_only ''''))))",
        simp)
qed

section \<open>The reasoning effort of the session\<close>

text \<open>
  C6. The claim is that an effort level the chosen model does not support is clamped to a
  supported one. The code has no table of supported levels: for the model \<open>gpt-5.2\<close>,
  documented as supporting low, medium and high, a call asking for \<open>xhigh\<close> makes the
  handler run the bridge on options with which the session is created with \<open>xhigh\<close>.
\<close>

theorem unsupported_effort_not_clamped:
  "snd (runBridge env_unset (Inr answering_client)
     (bridgeOptions ((prompt_only ''hi'')
        \<lparr> a_model := JStr ''gpt-5.2'', a_reasoningEffort := JStr ''xhigh'' \<rparr>))) =
     [GetClient,
      CreateSession (sessionConfig env_unset (bridgeOptions ((prompt_only ''hi'')
        \<lparr> a_model := JStr ''gpt-5.2'', a_reasoningEffort := JStr ''xhigh'' \<rparr>))),
      SendAndWait ''hi'' 300000,
      Destroy ''session-1''] \<and>
   cfg_model (sessionConfig env_unset (bridgeOptions ((prompt_only ''hi'')
        \<lparr> a_model := JStr ''gpt-5.2'', a_reasoningEffort := JStr ''xhigh'' \<rparr>))) = ''gpt-5.2'' \<and>
   cfg_reasoningEffort (sessionConfig env_unset (bridgeOptions ((prompt_only ''hi'')
        \<lparr> a_model := JStr ''gpt-5.2'', a_reasoningEffort := JStr ''xhigh'' \<rparr>))) = ''xhigh''"
  by (simp add: runBridge_def try_block_def finally_block_def Let_def
      prompt_only_def args_or_empty_def answering_client_def scripted_client_def
      scripted_session_def bridgeOptions_def sessionConfig_def opt_model_def
      opt_reasoningEffort_def opt_timeout_def DEFAULT_TIMEOUT_def env_unset_def fullPrompt_def
      VALID_REASONING_EFFORTS_def validatedGeminiModel_def)

text \<open>
  C8. The claim is that a call without a reasoning effort gets the configured default.
  With \<open>COPILOT_REASONING_EFFORT=low\<close> the configured default is \<open>low\<close>, and \<open>runBridge\<close>,
  given no effort, uses it; but the handler always gives \<open>runBridge\<close> an effort, the result
  of \<open>parseReasoningEffort\<close>, which is \<open>high\<close> for a missing value, and the session is
  created with \<open>high\<close>.
\<close>

theorem missing_effort_ignores_configured_default:
  "DEFAULT_REASONING_EFFORT env_effort_low = ''low'' \<and>
   cfg_reasoningEffort (sessionConfig env_effort_low (scenario_options None)) = ''low'' \<and>
   o_reasoningEffort (bridgeOptions (prompt_only ''hi'')) = Some ''high'' \<and>
   cfg_reasoningEffort (sessionConfig env_effort_low (bridgeOptions (prompt_only ''hi''))) = ''high'' \<and>
   snd (runBridge env_effort_low (Inr answering_client) (bridgeOptions (prompt_only ''hi''))) =
     [GetClient,
      CreateSession (sessionConfig env_effort_low (bridgeOptions (prompt_only ''hi''))),
      SendAndWait ''hi'' 300000,
      Destroy ''session-1'']"
  by (simp add: runBridge_def try_block_def finally_block_def Let_def
      prompt_only_def args_or_empty_def answering_client_def scripted_client_def
      scripted_session_def bridgeOptions_def sessionConfig_def opt_model_def
      opt_reasoningEffort_def opt_timeout_def DEFAULT_TIMEOUT_def env_unset_def env_effort_low_def
      fullPrompt_def scenario_options_def DEFAULT_REASONING_EFFORT_def
      VALID_REASONING_EFFORTS_def validatedGeminiModel_def)

section \<open>Concurrent acquisition of the client\<close>

lemma getClient_call_first:
  assumes "singletonClient rt = None" and "clientInitPromise rt = None"
  shows "getClient_call rt =
     (rt \<lparr> clientInitPromise := Some (length (promises rt)),
           promises := promises rt @ [Pending (length (started rt))],
           started := started rt @ [length (started rt)] \<rparr>,
      Awaiting (length (promises rt)))"
  using assms by (simp add: getClient_call_def Let_def)

lemma calls_in_flight:
  assumes "singletonClient rt = None" and "clientInitPromise rt = Some p"
  shows "calls n rt = (rt, replicate n (Adopted p))"
  using assms by (induction n) (simp_all add: getClient_call_def Let_def)

lemma calls_uninitialized:
  assumes "singletonClient rt = None" and "clientInitPromise rt = None"
  shows "calls (Suc n) rt =
     (fst (getClient_call rt),
      Awaiting (length (promises rt)) # replicate n (Adopted (length (promises rt))))"
proof -
  let ?rt1 = "fst (getClient_call rt)"
  have s: "singletonClient ?rt1 = None" and c: "clientInitPromise ?rt1 = Some (length (promises rt))"
    by (simp_all add: getClient_call_first [OF assms] assms)
  show ?thesis
    by (simp add: Let_def calls_in_flight [OF s c]) (simp add: getClient_call_first [OF assms])
qed

lemma resume_adopted:
  assumes "settled rt p = Some r"
  shows "resume_all (replicate n (Adopted p)) rt = (rt, replicate n (Some r))"
  using assms by (induction n) (simp_all add: getClient_resume_def Let_def)

lemma settled_clear [simp]: "settled (rt \<lparr> clientInitPromise := x \<rparr>) p = settled rt p"
  by (simp add: settled_def)

lemma start_settles_first:
  assumes "singletonClient rt = None" and "clientInitPromise rt = None"
  shows "start_settles (length (promises rt)) outcome (fst (getClient_call rt)) =
     (case outcome of
        Inr u \<Rightarrow>
          rt \<lparr> singletonClient := Some (length (started rt)),
               clientInitPromise := Some (length (promises rt)),
               promises := promises rt @ [Fulfilled (length (started rt))],
               started := started rt @ [length (started rt)] \<rparr>
      | Inl e \<Rightarrow>
          rt \<lparr> clientInitPromise := Some (length (promises rt)),
               promises := promises rt @ [Rejected e],
               started := started rt @ [length (started rt)] \<rparr>)"
  by (simp add: getClient_call_first [OF assms] start_settles_def split: sum.splits)

text \<open>
  C5. Let \<open>n > 0\<close> callers invoke \<open>getClient\<close> while the client is uninitialised (no
  singleton, no initialisation in flight), then let the start routine settle and the
  callers resume. The \<open>n\<close> calls invoke \<^verbatim>\<open>start()\<close> exactly once, on one new client; every
  caller observes the same outcome, that client or the value \<^verbatim>\<open>start()\<close> threw; after a
  success the client is the singleton; after a failure neither the singleton nor the
  in-flight promise is set, and the next call invokes \<^verbatim>\<open>start()\<close> again, on a new client.
\<close>

theorem concurrent_getClient_single_start:
  assumes "singletonClient rt = None" and "clientInitPromise rt = None" and "0 < n"
      and "calls n rt = (rt1, ws)"
      and "resume_all ws (start_settles (length (promises rt)) outcome rt1) = (rt2, observed)"
  shows "started rt1 = started rt @ [length (started rt)] \<and>
         started rt2 = started rt1 \<and>
         observed = replicate n (Some (map_sum id (\<lambda>u. length (started rt)) outcome)) \<and>
         (\<forall>u. outcome = Inr u \<longrightarrow> singletonClient rt2 = Some (length (started rt))) \<and>
         (\<forall>e. outcome = Inl e \<longrightarrow>
            singletonClient rt2 = None \<and> clientInitPromise rt2 = None \<and>
            started (fst (getClient_call rt2)) = started rt2 @ [length (started rt2)])"
proof -
  from assms(3) obtain k where n: "n = Suc k"
    by (cases n) simp_all
  let ?p = "length (promises rt)"
  let ?c = "length (started rt)"
  have "(fst (getClient_call rt), Awaiting ?p # replicate k (Adopted ?p)) = (rt1, ws)"
    using assms(4) unfolding n calls_uninitialized [OF assms(1,2)] .
  then have rt1: "rt1 = fst (getClient_call rt)"
    and ws: "ws = Awaiting ?p # replicate k (Adopted ?p)"
    by simp_all
  have st1: "started rt1 = started rt @ [?c]"
    by (simp add: rt1 getClient_call_first [OF assms(1,2)])
  let ?rt' = "start_settles ?p outcome rt1"
  show ?thesis
  proof (cases outcome)
    case (Inr u)
    have rt': "?rt' = rt \<lparr> singletonClient := Some ?c, clientInitPromise := Some ?p,
               promises := promises rt @ [Fulfilled ?c], started := started rt @ [?c] \<rparr>"
      by (simp add: rt1 start_settles_first [OF assms(1,2)] Inr)
    have s: "settled ?rt' ?p = Some (Inr ?c)"
      by (simp add: rt' settled_def)
    have "resume_all ws ?rt' = (?rt', replicate n (Some (Inr ?c)))"
      by (simp add: ws n getClient_resume_def s resume_adopted [OF s])
    with assms(5) have "rt2 = ?rt'" and o: "observed = replicate n (Some (Inr ?c))"
      by simp_all
    with rt' have rt2: "rt2 = rt \<lparr> singletonClient := Some ?c, clientInitPromise := Some ?p,
               promises := promises rt @ [Fulfilled ?c], started := started rt @ [?c] \<rparr>"
      by simp
    show ?thesis
      by (simp add: st1 o Inr) (simp add: rt2)
  next
    case (Inl e)
    have rt': "?rt' = rt \<lparr> clientInitPromise := Some ?p,
               promises := promises rt @ [Rejected e], started := started rt @ [?c] \<rparr>"
      by (simp add: rt1 start_settles_first [OF assms(1,2)] Inl)
    have s: "settled ?rt' ?p = Some (Inl e)"
      by (simp add: rt' settled_def)
    have s': "settled (?rt' \<lparr> clientInitPromise := None \<rparr>) ?p = Some (Inl e)"
      by (simp add: s)
    have "resume_all ws ?rt' = (?rt' \<lparr> clientInitPromise := None \<rparr>, replicate n (Some (Inl e)))"
      by (simp add: ws n getClient_resume_def s resume_adopted [OF s'])
    with assms(5) have "rt2 = ?rt' \<lparr> clientInitPromise := None \<rparr>"
      and o: "observed = replicate n (Some (Inl e))"
      by simp_all
    with rt' have rt2: "rt2 = rt \<lparr> clientInitPromise := None,
               promises := promises rt @ [Rejected e], started := started rt @ [?c] \<rparr>"
      by simp
    show ?thesis
      by (simp add: st1 o Inl) (simp add: rt2 assms(1) getClient_call_def Let_def)
  qed
qed

text \<open>Three concurrent callers and a start routine that fails.\<close>

theorem concurrent_getClient_single_start_witness:
  "singletonClient uninitialized = None \<and> clientInitPromise uninitialized = None \<and>
   started (fst (calls 3 uninitialized)) = [0] \<and>
   snd (resume_all (snd (calls 3 uninitialized))
          (start_settles 0 (Inl (JsError ''spawn failed'')) (fst (calls 3 uninitialized)))) =
     [Some (Inl (JsError ''spawn failed'')), Some (Inl (JsError ''spawn failed'')),
      Some (Inl (JsError ''spawn failed''))]"
proof -
  let ?rt2 = "resume_all (snd (calls 3 uninitialized))
          (start_settles 0 (Inl (JsError ''spawn failed'')) (fst (calls 3 uninitialized)))"
  have s: "singletonClient uninitialized = None" and c: "clientInitPromise uninitialized = None"
    and p: "length (promises uninitialized) = 0" and t: "started uninitialized = []"
    by (simp_all add: uninitialized_def)
  have r: "resume_all (snd (calls 3 uninitialized))
          (start_settles (length (promises uninitialized)) (Inl (JsError ''spawn failed''))
             (fst (calls 3 uninitialized))) = (fst ?rt2, snd ?rt2)"
    by (simp add: p)
  have n: "(0::nat) < 3"
    by simp
  show ?thesis
    using s c concurrent_getClient_single_start [OF s c n prod.collapse [symmetric] r]
    by (simp add: t numeral_3_eq_3)
qed

end
